theory Spec2Isabelle
  imports Complex_Main
begin

section \<open>XLM in MindNLP: masks, attention, chunked feed-forward, head pruning, encoder stack\<close>

text \<open>
  A shallow embedding of \<^verbatim>\<open>src/mindnlp/models/xlm/xlm.py\<close>.  Tensors are nested lists in
  row-major order, Python integers are \<^typ>\<open>int\<close>, tensor extents are \<^typ>\<open>nat\<close>, and every
  \<^verbatim>\<open>raise\<close> or failed \<^verbatim>\<open>assert\<close> is a value \<open>Inl e\<close> of the result type.  The file is
  written against MindSpore; where it calls a tensor method with the arguments of another
  framework and MindSpore rejects the call, the model raises as MindSpore does.
\<close>

subsection \<open>Errors\<close>

text \<open>
  \<open>TensorError\<close> stands for an exception raised inside a framework call whose Python class
  is not told apart here; the other constructors are the Python exceptions of the same
  name, the three \<^verbatim>\<open>ValueError\<close>s of \<^verbatim>\<open>apply_chunking_to_forward\<close> being kept apart.
\<close>

datatype error =
    AssertionError
  | ForwardArgsMismatch nat nat
  | ChunkShapeMismatch nat nat
  | ChunkNotMultiple nat int
  | TensorError
  | IndexError
  | ZeroDivisionError
  | AttributeError
  | KeyError
  | TypeError

definition bind_err :: "error + 'a \<Rightarrow> ('a \<Rightarrow> error + 'b) \<Rightarrow> error + 'b" where
  "bind_err m f = (case m of Inl e \<Rightarrow> Inl e | Inr x \<Rightarrow> f x)"

subsection \<open>\<^verbatim>\<open>get_masks\<close>\<close>

text \<open>
  The attention mask is either the padding mask itself (two axes) or the causal mask
  (three axes), so it is a tagged union here.
\<close>

datatype attn_mask = Mask2 "bool list list" | Mask3 "bool list list list"

text \<open>\<^verbatim>\<open>lengths.max()\<close>: the reduction is undefined on an empty tensor and raises there.\<close>

definition tensor_max :: "int list \<Rightarrow> error + int" where
  "tensor_max xs = (if xs = [] then Inl TensorError else Inr (Max (set xs)))"

text \<open>\<^verbatim>\<open>pmask.shape == (bs, slen)\<close> on a rank-2 nested list.\<close>

definition has_shape2 :: "'a list list \<Rightarrow> nat \<Rightarrow> nat \<Rightarrow> bool" where
  "has_shape2 t n m = (length t = n \<and> list_all (\<lambda>row. length row = m) t)"

text \<open>\<^verbatim>\<open>mindspore.numpy.arange(slen)\<close> on line 76: an extent of zero is rejected.\<close>

definition np_arange :: "nat \<Rightarrow> error + nat list" where
  "np_arange n = (if n = 0 then Inl TensorError else Inr [0..<n])"

text \<open>
  \<^verbatim>\<open>alen[None, None, :].repeat(bs, slen, 1)\<close> on line 86: \<^verbatim>\<open>Tensor.repeat\<close> takes the repeats
  and one axis, so a call with three positional arguments is a \<^verbatim>\<open>TypeError\<close>.
\<close>

definition tensor_repeat3 :: "nat list \<Rightarrow> nat \<Rightarrow> nat \<Rightarrow> nat \<Rightarrow> error + nat list list list" where
  "tensor_repeat3 alen a b c = Inl TypeError"

definition get_masks ::
  "nat \<Rightarrow> int list \<Rightarrow> bool \<Rightarrow> bool list list option \<Rightarrow> error + (bool list list \<times> attn_mask)" where
  "get_masks slen lengths causal padding_mask =
     bind_err (np_arange slen) (\<lambda>alen.
     bind_err
       (case padding_mask of
          Some pm \<Rightarrow> Inr pm
        | None \<Rightarrow>
           bind_err (tensor_max lengths) (\<lambda>mx.
             if \<not> mx \<le> int slen then Inl AssertionError
             else Inr (map (\<lambda>l. map (\<lambda>a. int a < l) alen) lengths)))
       (\<lambda>pmask.
         (let bs = length lengths
          in bind_err
               (if causal
                then bind_err (tensor_repeat3 alen bs slen 1) (\<lambda>rep.
                       Inr (Mask3 (map (\<lambda>block. map (\<lambda>(row, i). map (\<lambda>j. j \<le> i) row)
                                                   (zip block alen)) rep)))
                else Inr (Mask2 pmask))
               (\<lambda>attn_mask.
                 if \<not> has_shape2 pmask bs slen then Inl AssertionError
                 else Inr (pmask, attn_mask)))))"

text \<open>\<open>valid pmask b t\<close> reads the padding mask at sequence \<open>b\<close>, position \<open>t\<close>.\<close>

definition valid :: "bool list list \<Rightarrow> nat \<Rightarrow> nat \<Rightarrow> bool" where
  "valid pmask b t = pmask ! b ! t"

subsection \<open>Tensor kernels used by the chunked feed-forward\<close>

text \<open>
  \<^verbatim>\<open>apply_chunking_to_forward\<close> touches its tensors only along \<^verbatim>\<open>chunk_dim\<close>: it reads
  \<^verbatim>\<open>shape[chunk_dim]\<close>, splits with \<^verbatim>\<open>chunk(.., dim=chunk_dim)\<close> and joins with
  \<^verbatim>\<open>cat(.., axis=chunk_dim)\<close>.  A tensor is therefore given here as the list of its slices
  along \<^verbatim>\<open>chunk_dim\<close>, so that \<^verbatim>\<open>shape[chunk_dim]\<close> is the length of the list.  For the
  feed-forward sublayer (\<^verbatim>\<open>seq_len_dim = 1\<close>, input of shape \<open>(bs, slen, dim)\<close>) the slice at
  position \<open>t\<close> is \<^verbatim>\<open>input[:, t, :]\<close>, a list of \<open>bs\<close> feature vectors.
\<close>

text \<open>Running a fallible kernel over a list stops at the first element that raises.\<close>

fun map_err :: "('a \<Rightarrow> error + 'b) \<Rightarrow> 'a list \<Rightarrow> error + 'b list" where
  "map_err f [] = Inr []"
| "map_err f (x # xs) =
     (case f x of
        Inl e \<Rightarrow> Inl e
      | Inr y \<Rightarrow> (case map_err f xs of Inl e \<Rightarrow> Inl e | Inr ys \<Rightarrow> Inr (y # ys)))"

text \<open>\<^verbatim>\<open>Tensor.split(split_size, dim)\<close>: consecutive pieces of \<open>k\<close> slices, the last one shorter.\<close>

function split_every :: "nat \<Rightarrow> 'a list \<Rightarrow> 'a list list" where
  "split_every k xs = (if k = 0 \<or> xs = [] then [] else take k xs # split_every k (drop k xs))"
  by pat_completeness auto
termination
  by (relation "measure (\<lambda>(k, xs). length xs)") auto

declare split_every.simps [simp del]

text \<open>
  \<^verbatim>\<open>Tensor.chunk(chunks, dim)\<close>: the number of chunks must be positive; the pieces have
  \<open>\<lceil>len / chunks\<rceil>\<close> slices each, and an axis of extent zero gives \<open>chunks\<close> empty pieces.
\<close>

definition tensor_chunk :: "nat \<Rightarrow> 's list \<Rightarrow> error + 's list list" where
  "tensor_chunk chunks t =
     (if chunks = 0 then Inl TensorError
      else if t = [] then Inr (replicate chunks [])
      else Inr (split_every ((length t + chunks - 1) div chunks) t))"

text \<open>\<^verbatim>\<open>ops.cat(tensors, axis)\<close>: joining no tensor at all raises.\<close>

definition tensor_cat :: "'s list list \<Rightarrow> error + 's list" where
  "tensor_cat ts = (if ts = [] then Inl TensorError else Inr (concat ts))"

text \<open>\<^verbatim>\<open>zip(*xss)\<close>: the tuples of the entries at equal positions, as long as the shortest list.\<close>

definition zip_star :: "'a list list \<Rightarrow> 'a list list" where
  "zip_star xss =
     (if xss = [] then []
      else map (\<lambda>i. map (\<lambda>xs. xs ! i) xss) [0..<Min (set (map length xss))])"

subsection \<open>\<^verbatim>\<open>apply_chunking_to_forward\<close>\<close>

text \<open>
  \<open>n_params\<close> is \<^verbatim>\<open>len(inspect.signature(forward_fn).parameters)\<close>; \<open>forward_fn\<close> receives the
  list of its positional arguments.
\<close>

definition apply_chunking_to_forward ::
  "nat \<Rightarrow> ('s list list \<Rightarrow> error + 's list) \<Rightarrow> int \<Rightarrow> 's list list \<Rightarrow> error + 's list" where
  "apply_chunking_to_forward n_params forward_fn chunk_size input_tensors =
     (if \<not> length input_tensors > 0 then Inl AssertionError
      else if n_params \<noteq> length input_tensors
      then Inl (ForwardArgsMismatch n_params (length input_tensors))
      else if chunk_size > 0 then
        (let tensor_shape = length (hd input_tensors)
         in case find (\<lambda>t. length t \<noteq> tensor_shape) input_tensors of
              Some t \<Rightarrow> Inl (ChunkShapeMismatch tensor_shape (length t))
            | None \<Rightarrow>
               if int tensor_shape mod chunk_size \<noteq> 0
               then Inl (ChunkNotMultiple tensor_shape chunk_size)
               else
                 (let num_chunks = nat (int tensor_shape div chunk_size)
                  in case map_err (tensor_chunk num_chunks) input_tensors of
                       Inl e \<Rightarrow> Inl e
                     | Inr input_tensors_chunks \<Rightarrow>
                        (case map_err forward_fn (zip_star input_tensors_chunks) of
                           Inl e \<Rightarrow> Inl e
                         | Inr output_chunks \<Rightarrow> tensor_cat output_chunks)))
      else forward_fn input_tensors)"

subsection \<open>\<^verbatim>\<open>nn.Dense\<close> and \<^verbatim>\<open>TransformerFFN\<close>\<close>

text \<open>
  A dense layer holds a weight of shape \<open>(out, in)\<close> and an optional bias of shape \<open>(out)\<close>;
  applied to a feature vector it raises when the extents do not fit.
\<close>

record 'a dense =
  weight :: "'a list list"
  bias :: "'a list option"

definition dot :: "'a::comm_ring_1 list \<Rightarrow> 'a list \<Rightarrow> 'a" where
  "dot xs ys = sum_list (map (\<lambda>(x, y). x * y) (zip xs ys))"

definition dense_apply :: "'a::comm_ring_1 dense \<Rightarrow> 'a list \<Rightarrow> error + 'a list" where
  "dense_apply layer x =
     (if \<not> list_all (\<lambda>row. length row = length x) (weight layer) then Inl TensorError
      else case bias layer of
             None \<Rightarrow> Inr (map (\<lambda>row. dot row x) (weight layer))
           | Some b \<Rightarrow>
               if length b \<noteq> length (weight layer) then Inl TensorError
               else Inr (map (\<lambda>(row, c). dot row x + c) (zip (weight layer) b)))"

text \<open>
  \<open>act\<close> is the elementwise activation picked by \<^verbatim>\<open>config.gelu_activation\<close>; \<open>dropout_fn\<close>
  stands for one draw of \<^verbatim>\<open>ops.dropout(x, p=self.dropout)\<close> and is used in training mode only.
\<close>

record 'a transformer_ffn =
  lin1 :: "'a dense"
  lin2 :: "'a dense"
  act :: "'a \<Rightarrow> 'a"
  chunk_size_feed_forward :: int
  training :: bool
  dropout_fn :: "'a list list list \<Rightarrow> 'a list list list"

definition ff_vector :: "'a::comm_ring_1 transformer_ffn \<Rightarrow> 'a list \<Rightarrow> error + 'a list" where
  "ff_vector ffn v =
     (case dense_apply (lin1 ffn) v of
        Inl e \<Rightarrow> Inl e
      | Inr x \<Rightarrow> dense_apply (lin2 ffn) (map (act ffn) x))"

definition ff_chunk ::
  "'a::comm_ring_1 transformer_ffn \<Rightarrow> 'a list list list \<Rightarrow> error + 'a list list list" where
  "ff_chunk ffn input =
     (case map_err (map_err (ff_vector ffn)) input of
        Inl e \<Rightarrow> Inl e
      | Inr x \<Rightarrow> Inr (if training ffn then dropout_fn ffn x else x))"

definition TransformerFFN_construct ::
  "'a::comm_ring_1 transformer_ffn \<Rightarrow> 'a list list list \<Rightarrow> error + 'a list list list" where
  "TransformerFFN_construct ffn input =
     apply_chunking_to_forward 1 (\<lambda>args. ff_chunk ffn (hd args))
       (chunk_size_feed_forward ffn) [input]"

subsection \<open>A small feed-forward sublayer for concrete runs\<close>

text \<open>Two hidden units, ReLU, chunks of two positions, evaluation mode, integer entries.\<close>

definition ffn_example :: "int transformer_ffn" where
  "ffn_example = \<lparr>lin1 = \<lparr>weight = [[1], [2]], bias = Some [0, 1]\<rparr>,
                  lin2 = \<lparr>weight = [[1, 1]], bias = Some [3]\<rparr>,
                  act = (\<lambda>x. max 0 x), chunk_size_feed_forward = 2,
                  training = False, dropout_fn = (\<lambda>x. x)\<rparr>"

subsection \<open>\<^verbatim>\<open>XLMPredLayer\<close>\<close>

text \<open>The fields of \<^verbatim>\<open>XLMConfig\<close> that the prediction layer reads.\<close>

record pred_config =
  asm :: bool
  n_words :: nat
  pad_index :: int
  emb_dim :: nat

text \<open>
  An attribute that \<^verbatim>\<open>__init__\<close> never assigns is absent from the object: \<open>pl_proj\<close> is
  \<open>None\<close> then, and reading it raises \<^verbatim>\<open>AttributeError\<close>.
\<close>

record 'a pred_layer =
  pl_asm :: bool
  pl_n_words :: nat
  pl_pad_index :: int
  pl_proj :: "'a dense option"

text \<open>
  \<open>fresh_proj\<close> is the layer \<^verbatim>\<open>nn.Dense(dim, config.n_words, has_bias=True)\<close> as the framework
  initialises it.
\<close>

definition XLMPredLayer_init :: "pred_config \<Rightarrow> 'a dense \<Rightarrow> 'a pred_layer" where
  "XLMPredLayer_init config fresh_proj =
     \<lparr>pl_asm = asm config, pl_n_words = n_words config, pl_pad_index = pad_index config,
      pl_proj = (if asm config = False then Some fresh_proj else None)\<rparr>"

text \<open>The entries of the returned tuple.\<close>

datatype 'a pred_output = Loss 'a | Scores "'a list list list"

text \<open>\<^verbatim>\<open>scores.view(-1, n_words)\<close>: regroup all entries into rows of \<open>n_words\<close>.\<close>

definition view_rows :: "nat \<Rightarrow> 'a list list list \<Rightarrow> error + 'a list list" where
  "view_rows n t =
     (let flat = concat (concat t)
      in if n = 0 \<or> length flat mod n \<noteq> 0 then Inl TensorError
         else Inr (split_every n flat))"

text \<open>
  \<open>cross_entropy\<close> stands for \<^verbatim>\<open>ops.cross_entropy(.., reduction="mean")\<close>.  In the adaptive
  branch \<^verbatim>\<open>self.proj\<close> is read first; were it a dense layer, it has no \<^verbatim>\<open>log_prob\<close>.
\<close>

definition XLMPredLayer_construct ::
  "('a list list \<Rightarrow> int list \<Rightarrow> error + 'a) \<Rightarrow> 'a::comm_ring_1 pred_layer \<Rightarrow>
     'a list list list \<Rightarrow> int list list option \<Rightarrow> error + 'a pred_output list" where
  "XLMPredLayer_construct cross_entropy self x y =
     (if pl_asm self = False then
        (case pl_proj self of
           None \<Rightarrow> Inl AttributeError
         | Some p \<Rightarrow>
            (case map_err (map_err (dense_apply p)) x of
               Inl e \<Rightarrow> Inl e
             | Inr scores \<Rightarrow>
                (case y of
                   None \<Rightarrow> Inr [Scores scores]
                 | Some labels \<Rightarrow>
                    (case view_rows (pl_n_words self) scores of
                       Inl e \<Rightarrow> Inl e
                     | Inr rows \<Rightarrow>
                        (case cross_entropy rows (concat labels) of
                           Inl e \<Rightarrow> Inl e
                         | Inr loss \<Rightarrow> Inr [Loss loss, Scores scores])))))
      else
        (case pl_proj self of
           None \<Rightarrow> Inl AttributeError
         | Some p \<Rightarrow> Inl AttributeError))"

text \<open>A two-word vocabulary over integers, and a stand-in loss that counts the labels.\<close>

definition pred_config_example :: "bool \<Rightarrow> pred_config" where
  "pred_config_example a = \<lparr>asm = a, n_words = 2, pad_index = 0, emb_dim = 1\<rparr>"

definition proj_example :: "int dense" where
  "proj_example = \<lparr>weight = [[1], [2]], bias = Some [0, 1]\<rparr>"

definition ce_example :: "int list list \<Rightarrow> int list \<Rightarrow> error + int" where
  "ce_example rows labels =
     (if length rows \<noteq> length labels then Inl TensorError else Inr (int (length labels)))"

subsection \<open>Head pruning\<close>

text \<open>
  The state of a \<^verbatim>\<open>MultiHeadAttention\<close> cell.  \<^verbatim>\<open>pruned_heads\<close> is a Python set; the dropout
  probability is a constant of the configuration and is not part of the state modelled here.
\<close>

record 'a attention =
  layer_id :: nat
  dim :: int
  n_heads :: int
  q_lin :: "'a dense"
  k_lin :: "'a dense"
  v_lin :: "'a dense"
  out_lin :: "'a dense"
  pruned_heads :: "int set"
  attn_training :: bool

text \<open>
  \<^verbatim>\<open>mask[head] = 0\<close> on a rank-2 tensor: a negative index counts from the end, an index
  outside \<open>[-n, n)\<close> raises.
\<close>

definition zero_row :: "nat list list \<Rightarrow> int \<Rightarrow> error + nat list list" where
  "zero_row m head =
     (let n = int (length m);
          j = (if head < 0 then head + n else head)
      in if 0 \<le> j \<and> j < n
         then Inr (m[nat j := replicate (length (m ! nat j)) 0])
         else Inl IndexError)"

text \<open>
  The loop \<^verbatim>\<open>for head in heads\<close> of \<^verbatim>\<open>find_pruneable_heads_and_indices\<close>; every head is moved
  left by the number of already pruned heads before it.
\<close>

fun zero_heads :: "int list \<Rightarrow> int set \<Rightarrow> nat list list \<Rightarrow> error + nat list list" where
  "zero_heads [] already_pruned_heads m = Inr m"
| "zero_heads (head # heads) already_pruned_heads m =
     (case zero_row m (head - (\<Sum>h \<in> already_pruned_heads. if h < head then 1 else 0)) of
        Inl e \<Rightarrow> Inl e
      | Inr m' \<Rightarrow> zero_heads heads already_pruned_heads m')"

text \<open>
  \<^verbatim>\<open>mindspore.ops.ones(n_heads, head_size)\<close> on line 61: the second positional parameter of
  \<^verbatim>\<open>ops.ones\<close> is the dtype, and the integer \<^verbatim>\<open>head_size\<close> is not one, so the call is a
  \<^verbatim>\<open>TypeError\<close>.
\<close>

definition ops_ones :: "int \<Rightarrow> int \<Rightarrow> error + nat list list" where
  "ops_ones shape dtype = Inl TypeError"

text \<open>
  \<^verbatim>\<open>set(heads) - already_pruned_heads\<close> is enumerated without repetition; the order in which
  Python walks a set is not specified, here it is the order of first occurrence.
\<close>

definition find_pruneable_heads_and_indices ::
  "int list \<Rightarrow> int \<Rightarrow> int \<Rightarrow> int set \<Rightarrow> error + (int list \<times> nat list)" where
  "find_pruneable_heads_and_indices heads nh head_size already_pruned_heads =
     bind_err (ops_ones nh head_size) (\<lambda>ones.
       (let heads' = filter (\<lambda>h. h \<notin> already_pruned_heads) (remdups heads)
        in bind_err (zero_heads heads' already_pruned_heads ones) (\<lambda>m.
             (let flat = map (\<lambda>x. x = 1) (concat m);
                  index = filter (\<lambda>i. flat ! i) [0..<length flat]
              in Inr (heads', index)))))"

text \<open>\<^verbatim>\<open>t[index]\<close> and \<^verbatim>\<open>index_select\<close> along one axis: every index has to be in range.\<close>

definition select :: "nat list \<Rightarrow> 'a list \<Rightarrow> error + 'a list" where
  "select index xs =
     (if list_all (\<lambda>i. i < length xs) index then Inr (map (\<lambda>i. xs ! i) index)
      else Inl IndexError)"

definition index_select :: "nat \<Rightarrow> nat list \<Rightarrow> 'a list list \<Rightarrow> error + 'a list list" where
  "index_select d index w =
     (if d = 0 then select index w
      else if d = 1 then map_err (select index) w
      else Inl IndexError)"

text \<open>\<^verbatim>\<open>index.to(layer.weight.device)\<close> on line 111: the call is rejected.\<close>

definition tensor_to_device :: "nat list \<Rightarrow> error + nat list" where
  "tensor_to_device index = Inl TensorError"

text \<open>
  \<^verbatim>\<open>prune_linear_layer\<close>.  After line 111 come the selection of the weight and of the bias;
  line 118 then calls \<^verbatim>\<open>layer.weight.size()\<close>, and \<^verbatim>\<open>size\<close> being an integer property the call
  is a \<^verbatim>\<open>TypeError\<close>, so lines 119 to 130, which would build the new layer, are never
  reached.
\<close>

definition prune_linear_layer :: "'a dense \<Rightarrow> nat list \<Rightarrow> nat \<Rightarrow> error + 'a dense" where
  "prune_linear_layer layer index0 d =
     bind_err (tensor_to_device index0) (\<lambda>index.
     bind_err (index_select d index (weight layer)) (\<lambda>W.
     bind_err
       (case bias layer of
          None \<Rightarrow> Inr None
        | Some b0 \<Rightarrow>
            if d = 1 then Inr (Some b0)
            else bind_err (select index b0) (\<lambda>b. Inr (Some b)))
       (\<lambda>b. Inl TypeError)))"

text \<open>
  \<^verbatim>\<open>prune_heads\<close> assigns its attributes one after the other, so an exception leaves the
  assignments made before it in place.  The result is the state after the call together
  with the exception raised, if any.
\<close>

definition prune_heads :: "'a attention \<Rightarrow> int list \<Rightarrow> 'a attention \<times> error option" where
  "prune_heads self heads =
     (if n_heads self = 0 then (self, Some ZeroDivisionError)
      else
        (let attention_head_size = dim self div n_heads self
         in if length heads = 0 then (self, None)
            else
              (case find_pruneable_heads_and_indices heads (n_heads self) attention_head_size
                      (pruned_heads self) of
                 Inl e \<Rightarrow> (self, Some e)
               | Inr (heads', index) \<Rightarrow>
                  (case prune_linear_layer (q_lin self) index 0 of
                     Inl e \<Rightarrow> (self, Some e)
                   | Inr q \<Rightarrow>
                      (let s1 = self\<lparr>q_lin := q\<rparr>
                       in case prune_linear_layer (k_lin s1) index 0 of
                            Inl e \<Rightarrow> (s1, Some e)
                          | Inr k \<Rightarrow>
                             (let s2 = s1\<lparr>k_lin := k\<rparr>
                              in case prune_linear_layer (v_lin s2) index 0 of
                                   Inl e \<Rightarrow> (s2, Some e)
                                 | Inr v \<Rightarrow>
                                    (let s3 = s2\<lparr>v_lin := v\<rparr>
                                     in case prune_linear_layer (out_lin s3) index 1 of
                                          Inl e \<Rightarrow> (s3, Some e)
                                        | Inr out \<Rightarrow>
                                           (let s4 = s3\<lparr>out_lin := out\<rparr>;
                                                s5 = s4\<lparr>n_heads := n_heads s4 - int (length heads')\<rparr>;
                                                s6 = s5\<lparr>dim := attention_head_size * n_heads s5\<rparr>
                                            in (s6\<lparr>pruned_heads := pruned_heads s6 \<union> set heads'\<rparr>,
                                                None)))))))))"

text \<open>A layer of two heads of size one over integers, as \<^verbatim>\<open>__init__\<close> leaves it.\<close>

definition attention_example :: "int attention" where
  "attention_example =
     \<lparr>layer_id = 0, dim = 2, n_heads = 2,
      q_lin = \<lparr>weight = [[1, 2], [3, 4]], bias = Some [5, 6]\<rparr>,
      k_lin = \<lparr>weight = [[1, 0], [0, 1]], bias = Some [0, 0]\<rparr>,
      v_lin = \<lparr>weight = [[2, 0], [0, 2]], bias = Some [1, 1]\<rparr>,
      out_lin = \<lparr>weight = [[1, 2], [3, 4]], bias = Some [7, 8]\<rparr>,
      pruned_heads = {}, attn_training = False\<rparr>"

subsection \<open>\<^verbatim>\<open>MultiHeadAttention.construct\<close>\<close>

text \<open>
  From here on tensors hold real numbers, so that \<^verbatim>\<open>math.sqrt\<close>, the softmax and the layer
  normalisation are the functions themselves; rounding is not modelled.  Extents that the
  source leaves to broadcasting have to agree here, except along the batch and head axes
  of the masks.
\<close>

type_synonym tensor3 = "real list list list"
type_synonym tensor4 = "real list list list list"

text \<open>
  The cache is a Python dictionary with the key \<^verbatim>\<open>"slen"\<close> for the length counter and one
  key per layer identifier for the pair of accumulated keys and values.
\<close>

record kv_cache =
  cache_slen :: "int option"
  cache_layers :: "nat \<rightharpoonup> (tensor4 \<times> tensor4)"

text \<open>\<^verbatim>\<open>np.finfo(np.float32).min\<close>, the value handed to \<^verbatim>\<open>masked_fill\<close>.\<close>

definition float32_min :: real where
  "float32_min = - ((2 - 1 / 2 ^ 23) * 2 ^ 127)"

definition zip_with_err :: "('a \<Rightarrow> 'b \<Rightarrow> error + 'c) \<Rightarrow> 'a list \<Rightarrow> 'b list \<Rightarrow> error + 'c list" where
  "zip_with_err f xs ys =
     (if length xs \<noteq> length ys then Inl TensorError
      else map_err (\<lambda>(x, y). f x y) (zip xs ys))"

text \<open>
  The inner function \<^verbatim>\<open>shape\<close>: \<^verbatim>\<open>x.view(bs, -1, n_heads, dim_per_head).transpose(0,2,1,3)\<close>.
  The view needs positive extents and a number of entries that they divide.
\<close>

definition shape_heads :: "nat \<Rightarrow> int \<Rightarrow> int \<Rightarrow> tensor3 \<Rightarrow> error + tensor4" where
  "shape_heads bs nh dph x =
     (let flat = concat (concat x);
          w = bs * nat nh * nat dph
      in if bs = 0 \<or> nh \<le> 0 \<or> dph \<le> 0 then Inl TensorError
         else if length flat mod w \<noteq> 0 then Inl TensorError
         else
           (let len = length flat div w
            in Inr (map (\<lambda>b. map (\<lambda>h. map (\<lambda>l.
                      take (nat dph) (drop (((b * len + l) * nat nh + h) * nat dph) flat))
                    [0..<len]) [0..<nat nh]) [0..<bs])))"

text \<open>The inner function \<^verbatim>\<open>unshape\<close>: \<^verbatim>\<open>x.transpose(0,2,1,3).view(bs, -1, n_heads * dim_per_head)\<close>.\<close>

definition unshape_heads :: "nat \<Rightarrow> int \<Rightarrow> int \<Rightarrow> tensor4 \<Rightarrow> error + tensor3" where
  "unshape_heads bs nh dph x =
     (let flat = concat (map (\<lambda>heads. concat (map concat (transpose heads))) x);
          w = nat nh * nat dph
      in if bs = 0 \<or> nh \<le> 0 \<or> dph \<le> 0 then Inl TensorError
         else if length flat mod (bs * w) \<noteq> 0 then Inl TensorError
         else
           (let len = length flat div (bs * w)
            in Inr (map (\<lambda>b. map (\<lambda>l. take w (drop ((b * len + l) * w) flat)) [0..<len])
                    [0..<bs])))"

text \<open>A projection followed by \<^verbatim>\<open>shape\<close>, as in \<^verbatim>\<open>shape(self.q_lin(input))\<close>.\<close>

definition project_heads :: "real dense \<Rightarrow> nat \<Rightarrow> int \<Rightarrow> int \<Rightarrow> tensor3 \<Rightarrow> error + tensor4" where
  "project_heads layer bs nh dph x =
     bind_err (map_err (map_err (dense_apply layer)) x) (shape_heads bs nh dph)"

text \<open>\<^verbatim>\<open>ops.cat([a, b], axis=2)\<close> on tensors of rank 4.\<close>

definition cat_axis2 :: "nat \<Rightarrow> tensor4 \<Rightarrow> tensor4 \<Rightarrow> error + tensor4" where
  "cat_axis2 d a b =
     (if \<not> list_all (list_all (list_all (\<lambda>u. length u = d))) a then Inl TensorError
      else zip_with_err (zip_with_err (\<lambda>x y. Inr (x @ y))) a b)"

text \<open>\<^verbatim>\<open>matmul(q, k.transpose(0,1,3,2))\<close>: the inner products of every query with every key.\<close>

definition matmul_qk :: "tensor4 \<Rightarrow> tensor4 \<Rightarrow> error + tensor4" where
  "matmul_qk q k =
     zip_with_err (zip_with_err (\<lambda>qh kh.
        if \<not> list_all (\<lambda>qi. list_all (\<lambda>kj. length kj = length qi) kh) qh then Inl TensorError
        else Inr (map (\<lambda>qi. map (\<lambda>kj. dot qi kj) kh) qh))) q k"

text \<open>\<^verbatim>\<open>matmul(weights, v)\<close>: for every query the sum of the values weighted by its row.\<close>

definition weighted_sum :: "nat \<Rightarrow> real list \<Rightarrow> real list list \<Rightarrow> real list" where
  "weighted_sum d w vs =
     foldr (\<lambda>(c, u) acc. map (\<lambda>(x, y). c * x + y) (zip u acc)) (zip w vs) (replicate d 0)"

definition matmul_wv :: "nat \<Rightarrow> tensor4 \<Rightarrow> tensor4 \<Rightarrow> error + tensor4" where
  "matmul_wv d w v =
     zip_with_err (zip_with_err (\<lambda>wh vh.
        if \<not> list_all (\<lambda>wi. length wi = length vh) wh
           \<or> \<not> list_all (\<lambda>u. length u = d) vh then Inl TensorError
        else Inr (map (\<lambda>wi. weighted_sum d wi vh) wh))) w v"

text \<open>
  \<^verbatim>\<open>(mask == 0).view(mask_reshape).expand_as(scores)\<close>, with \<^verbatim>\<open>mask_reshape\<close> equal to
  \<open>(bs, 1, qlen, klen)\<close> for a mask of rank 3 and to \<open>(bs, 1, 1, klen)\<close> otherwise.  The result
  is true where attention is to be suppressed.  \<open>klen_act\<close> is the last extent of \<^verbatim>\<open>scores\<close>.
\<close>

definition mask_view_expand ::
  "attn_mask \<Rightarrow> nat \<Rightarrow> nat \<Rightarrow> nat \<Rightarrow> int \<Rightarrow> nat \<Rightarrow> error + bool list list list list" where
  "mask_view_expand m bs nh qlen klen klen_act =
     (let flat = map Not (case m of Mask2 x \<Rightarrow> concat x | Mask3 x \<Rightarrow> concat (concat x));
          rq = (case m of Mask2 x \<Rightarrow> 1 | Mask3 x \<Rightarrow> qlen)
      in if klen < 0 then Inl TensorError
         else if length flat \<noteq> bs * rq * nat klen then Inl TensorError
         else if \<not> (nat klen = klen_act \<or> nat klen = 1) \<or> \<not> (rq = qlen \<or> rq = 1)
         then Inl TensorError
         else Inr (map (\<lambda>b. replicate nh (map (\<lambda>i. map (\<lambda>j.
                     flat ! ((b * rq + (if rq = 1 then 0 else i)) * nat klen
                             + (if nat klen = 1 then 0 else j)))
                   [0..<klen_act]) [0..<qlen])) [0..<bs]))"

text \<open>\<^verbatim>\<open>Tensor.masked_fill(mask, value)\<close> returns a new tensor and leaves its receiver as it is.\<close>

definition masked_fill :: "bool list list list list \<Rightarrow> real \<Rightarrow> tensor4 \<Rightarrow> tensor4" where
  "masked_fill m val t =
     map (\<lambda>(mb, tb). map (\<lambda>(mh, th). map (\<lambda>(mi, ti). map (\<lambda>(mj, x). if mj then val else x)
       (zip mi ti)) (zip mh th)) (zip mb tb)) (zip m t)"

definition softmax :: "real list \<Rightarrow> real list" where
  "softmax xs = map (\<lambda>x. exp x / (\<Sum>y\<leftarrow>xs. exp y)) xs"

text \<open>\<^verbatim>\<open>weights * head_mask\<close>, the head mask of a layer having one entry per head.\<close>

definition mul_head_mask :: "tensor4 \<Rightarrow> real list \<Rightarrow> error + tensor4" where
  "mul_head_mask w hm =
     map_err (\<lambda>wb.
        if length hm = length wb then Inr (map (\<lambda>(c, wh). map (map ((*) c)) wh) (zip hm wb))
        else if length hm = 1 then Inr (map (map (map ((*) (hd hm)))) wb)
        else Inl TensorError) w"

text \<open>
  Lines 330 to 333: the number of keys that the mask is reshaped for.  With \<^verbatim>\<open>kv\<close> given,
  line 333 calls \<^verbatim>\<open>kv.size(1)\<close>; \<^verbatim>\<open>size\<close> is an integer property, so the call is a
  \<^verbatim>\<open>TypeError\<close>.
\<close>

definition key_length :: "nat \<Rightarrow> tensor3 option \<Rightarrow> kv_cache option \<Rightarrow> error + int" where
  "key_length qlen kv cache =
     (case kv of
        None \<Rightarrow>
          (case cache of
             None \<Rightarrow> Inr (int qlen)
           | Some c \<Rightarrow>
              (case cache_slen c of None \<Rightarrow> Inl KeyError | Some sl \<Rightarrow> Inr (sl + int qlen)))
      | Some src \<Rightarrow> Inl TypeError)"

text \<open>
  Lines 348 to 354: keys and values are projected from the input, or from \<^verbatim>\<open>kv\<close> unless
  this layer has an entry in the cache; in the latter case nothing is computed here.
\<close>

definition fresh_keys_values ::
  "real attention \<Rightarrow> nat \<Rightarrow> int \<Rightarrow> tensor3 \<Rightarrow> tensor3 option \<Rightarrow> kv_cache option \<Rightarrow>
     error + (tensor4 \<times> tensor4) option" where
  "fresh_keys_values self bs dim_per_head input kv cache =
     (let src = (case kv of None \<Rightarrow> Some input
                 | Some s \<Rightarrow>
                    (case cache of
                       None \<Rightarrow> Some s
                     | Some c \<Rightarrow> if layer_id self \<notin> dom (cache_layers c) then Some s else None))
      in case src of
           None \<Rightarrow> Inr None
         | Some x \<Rightarrow>
            bind_err (project_heads (k_lin self) bs (n_heads self) dim_per_head x)
              (\<lambda>k. bind_err (project_heads (v_lin self) bs (n_heads self) dim_per_head x)
                (\<lambda>v. Inr (Some (k, v)))))"

text \<open>
  Lines 356 to 364: with a cache, the entry of this layer is put in front of the fresh keys
  and values (self-attention) or replaces them (\<^verbatim>\<open>kv\<close> given), and the result is stored.
\<close>

definition merge_cache ::
  "real attention \<Rightarrow> int \<Rightarrow> tensor3 option \<Rightarrow> kv_cache option \<Rightarrow> (tensor4 \<times> tensor4) option \<Rightarrow>
     error + ((tensor4 \<times> tensor4) \<times> kv_cache option)" where
  "merge_cache self dim_per_head kv cache fresh =
     (case cache of
        None \<Rightarrow> Inr (the fresh, None)
      | Some c \<Rightarrow>
         bind_err
           (case cache_layers c (layer_id self) of
              None \<Rightarrow> Inr (the fresh)
            | Some (k', v') \<Rightarrow>
               (case kv of
                  None \<Rightarrow>
                    bind_err (cat_axis2 (nat dim_per_head) k' (fst (the fresh)))
                      (\<lambda>k. bind_err (cat_axis2 (nat dim_per_head) v' (snd (the fresh)))
                        (\<lambda>v. Inr (k, v)))
                | Some s \<Rightarrow> Inr (k', v')))
           (\<lambda>kv'. Inr (kv', Some (c\<lparr>cache_layers := (cache_layers c)(layer_id self \<mapsto> kv')\<rparr>))))"

text \<open>
  Lines 329 to 369 of \<^verbatim>\<open>construct\<close>: the result holds the tensor \<^verbatim>\<open>scores\<close> as line 371 hands it
  to the softmax, the values \<^verbatim>\<open>v\<close> and the cache.  The statement on lines 368 and 369 calls
  \<^verbatim>\<open>scores.masked_fill(..)\<close> and drops what it returns, so \<^verbatim>\<open>scores\<close> stays as computed.
\<close>

definition attention_scores ::
  "real attention \<Rightarrow> tensor3 \<Rightarrow> attn_mask \<Rightarrow> tensor3 option \<Rightarrow> kv_cache option \<Rightarrow>
     error + (tensor4 \<times> tensor4 \<times> kv_cache option)" where
  "attention_scores self input m kv cache =
     (let bs = length input;
          qlen = (case input of [] \<Rightarrow> 0 | r # rs \<Rightarrow> length r)
      in bind_err (key_length qlen kv cache) (\<lambda>klen.
           if n_heads self = 0 then Inl ZeroDivisionError
           else
             (let dim_per_head = dim self div n_heads self
              in bind_err (project_heads (q_lin self) bs (n_heads self) dim_per_head input) (\<lambda>q.
                 bind_err (fresh_keys_values self bs dim_per_head input kv cache) (\<lambda>fresh.
                 bind_err (merge_cache self dim_per_head kv cache fresh) (\<lambda>((k, v), cache').
                 bind_err (matmul_qk q k) (\<lambda>qk.
                   (let scores = map (map (map (map (\<lambda>x. x / sqrt (real_of_int dim_per_head))))) qk
                    in bind_err (mask_view_expand m bs (nat (n_heads self)) qlen klen
                                   (length (hd (hd k)))) (\<lambda>mask'.
                         (let discarded = masked_fill mask' float32_min scores
                          in Inr (scores, v, cache')))))))))))"

text \<open>
  The whole of \<^verbatim>\<open>construct\<close>.  \<open>dropout\<close> stands for one draw of \<^verbatim>\<open>ops.dropout\<close> on the weights
  and is used in training mode only; \<open>head_mask\<close> is the entry of the head mask for this
  layer.  The result is the output tuple and the cache after the call.
\<close>

definition MultiHeadAttention_construct ::
  "real attention \<Rightarrow> (tensor4 \<Rightarrow> tensor4) \<Rightarrow> tensor3 \<Rightarrow> attn_mask \<Rightarrow> tensor3 option \<Rightarrow>
     kv_cache option \<Rightarrow> real list option \<Rightarrow> bool \<Rightarrow>
     error + ((tensor3 \<times> tensor4 option) \<times> kv_cache option)" where
  "MultiHeadAttention_construct self dropout input m kv cache head_mask output_attentions =
     bind_err (attention_scores self input m kv cache)
       (\<lambda>(scores, v, cache').
         (let nh = n_heads self;
              dim_per_head = dim self div nh;
              weights0 = map (map (map softmax)) scores;
              weights1 = (if attn_training self then dropout weights0 else weights0)
          in bind_err (case head_mask of None \<Rightarrow> Inr weights1 | Some hm \<Rightarrow> mul_head_mask weights1 hm)
              (\<lambda>weights.
                bind_err (matmul_wv (nat dim_per_head) weights v)
                  (\<lambda>context.
                    bind_err (unshape_heads (length input) nh dim_per_head context)
                      (\<lambda>ctx.
                        bind_err (map_err (map_err (dense_apply (out_lin self))) ctx)
                          (\<lambda>out.
                            Inr ((out, if output_attentions then Some weights else None),
                                 cache')))))))"

text \<open>
  One head of size one with identity projections, for concrete runs; the padding mask
  \<open>[[T, F]]\<close> marks the second of two positions as padding.
\<close>

definition attention_unit :: "real attention" where
  "attention_unit =
     \<lparr>layer_id = 0, dim = 1, n_heads = 1,
      q_lin = \<lparr>weight = [[1]], bias = Some [0]\<rparr>,
      k_lin = \<lparr>weight = [[1]], bias = Some [0]\<rparr>,
      v_lin = \<lparr>weight = [[1]], bias = Some [0]\<rparr>,
      out_lin = \<lparr>weight = [[1]], bias = Some [0]\<rparr>,
      pruned_heads = {}, attn_training = False\<rparr>"

subsection \<open>\<^verbatim>\<open>XLMModel.construct\<close>\<close>

text \<open>\<^verbatim>\<open>nn.LayerNorm((dim,), epsilon)\<close> on one feature vector.\<close>

record layer_norm =
  ln_gamma :: "real list"
  ln_beta :: "real list"
  ln_eps :: real

definition layer_norm_apply :: "layer_norm \<Rightarrow> real list \<Rightarrow> error + real list" where
  "layer_norm_apply lnorm x =
     (if length x \<noteq> length (ln_gamma lnorm) \<or> length x \<noteq> length (ln_beta lnorm)
      then Inl TensorError
      else
        (let n = real (length x);
             mu = sum_list x / n;
             var = (\<Sum>xi\<leftarrow>x. (xi - mu) ^ 2) / n
         in Inr (map (\<lambda>(xi, g, b). (xi - mu) / sqrt (var + ln_eps lnorm) * g + b)
                   (zip x (zip (ln_gamma lnorm) (ln_beta lnorm))))))"

text \<open>\<^verbatim>\<open>nn.Embedding\<close>: a table of feature vectors, looked up by identifier.\<close>

definition embedding_lookup :: "real list list \<Rightarrow> int list list \<Rightarrow> error + tensor3" where
  "embedding_lookup table ids =
     map_err (map_err (\<lambda>i. if 0 \<le> i \<and> i < int (length table) then Inr (table ! nat i)
                             else Inl IndexError)) ids"

text \<open>The head mask argument has rank 1 (one entry per head) or rank 2 (layers by heads).\<close>

datatype head_mask_arg = HeadMask1 "real list" | HeadMask2 "real list list"

record xlm_model =
  xlm_causal :: bool
  xlm_pad_index :: int
  xlm_n_langs :: int
  xlm_use_lang_emb :: bool
  xlm_n_layers :: nat
  xlm_training :: bool
  position_embeddings :: "real list list"
  lang_embeddings :: "real list list option"
  embeddings :: "real list list"
  layer_norm_emb :: layer_norm
  attentions :: "real attention list"
  layer_norm1 :: "layer_norm list"
  ffns :: "real transformer_ffn list"
  layer_norm2 :: "layer_norm list"
  position_ids :: "int list"
  config_output_attentions :: bool
  config_output_hidden_states :: bool

text \<open>The arguments of \<^verbatim>\<open>construct\<close> other than the cache.\<close>

record xlm_inputs =
  input_ids :: "int list list option"
  attention_mask :: "bool list list option"
  langs :: "int list list option"
  token_type_ids :: "int list list option"
  position_ids_arg :: "int list list option"
  lengths_arg :: "int list option"
  head_mask :: "head_mask_arg option"
  inputs_embeds :: "tensor3 option"
  output_attentions :: "bool option"
  output_hidden_states :: "bool option"

text \<open>One draw of \<^verbatim>\<open>ops.dropout\<close> for hidden states and for attention weights.\<close>

record dropout_draws =
  drop_hidden :: "tensor3 \<Rightarrow> tensor3"
  drop_weights :: "tensor4 \<Rightarrow> tensor4"

text \<open>The returned tuple: the final tensor and, if asked for, hidden states and attentions.\<close>

record xlm_outputs =
  out_tensor :: tensor3
  out_hidden_states :: "tensor3 list option"
  out_attentions :: "tensor4 list option"

text \<open>The Python slice \<^verbatim>\<open>xs[-k:]\<close>; for \<open>k = 0\<close> it is \<^verbatim>\<open>xs[0:]\<close>, the whole list.\<close>

definition py_slice_last :: "int \<Rightarrow> 'a list \<Rightarrow> 'a list" where
  "py_slice_last k xs =
     (let n = int (length xs);
          start = - k;
          s = (if start < 0 then max (start + n) 0 else min start n)
      in drop (nat s) xs)"

definition slice_attn_mask :: "int \<Rightarrow> attn_mask \<Rightarrow> attn_mask" where
  "slice_attn_mask k m =
     (case m of Mask2 x \<Rightarrow> Mask2 (map (py_slice_last k) x)
              | Mask3 x \<Rightarrow> Mask3 (map (py_slice_last k) x))"

text \<open>The extent of axis 1 of a tensor given as a nested list.\<close>

definition size1 :: "'a list list \<Rightarrow> nat" where
  "size1 t = (case t of [] \<Rightarrow> 0 | r # rs \<Rightarrow> length r)"

text \<open>Elementwise sum of two tensors of equal shape.\<close>

definition add3 :: "tensor3 \<Rightarrow> tensor3 \<Rightarrow> error + tensor3" where
  "add3 a b = zip_with_err (zip_with_err (zip_with_err (\<lambda>x y. Inr (x + y)))) a b"

text \<open>\<^verbatim>\<open>a + b.expand_as(a)\<close> where \<open>b\<close> may have a batch axis of extent one.\<close>

definition add3_expand :: "tensor3 \<Rightarrow> tensor3 \<Rightarrow> error + tensor3" where
  "add3_expand a b =
     (if length b = length a then add3 a b
      else if length b = 1 then add3 a (replicate (length a) (hd b))
      else Inl TensorError)"

text \<open>\<^verbatim>\<open>tensor *= mask.unsqueeze(-1).to(tensor.dtype)\<close>.\<close>

definition mul_mask :: "tensor3 \<Rightarrow> bool list list \<Rightarrow> error + tensor3" where
  "mul_mask t m =
     zip_with_err (zip_with_err (\<lambda>v keep. Inr (map (\<lambda>x. x * (if keep then 1 else 0)) v))) t m"

text \<open>
  Lines 536 to 572: extents, lengths, masks and position identifiers.  The assertions on
  lines 566 and 571 call \<^verbatim>\<open>position_ids.size()\<close> and \<^verbatim>\<open>langs.size()\<close>; \<^verbatim>\<open>size\<close> is an integer
  property, so with either argument given the call is a \<^verbatim>\<open>TypeError\<close>.
\<close>

definition xlm_prepare ::
  "xlm_model \<Rightarrow> xlm_inputs \<Rightarrow>
     error + (nat \<times> nat \<times> bool list list \<times> attn_mask \<times> int list list)" where
  "xlm_prepare self args =
     bind_err
       (case input_ids args of
          Some ids \<Rightarrow> Inr (length ids, size1 ids)
        | None \<Rightarrow>
           (case inputs_embeds args of
              Some e \<Rightarrow> Inr (length e, size1 e)
            | None \<Rightarrow> Inl AttributeError))
       (\<lambda>(bs, slen).
         (let lengths =
                (case lengths_arg args of
                   Some l \<Rightarrow> l
                 | None \<Rightarrow>
                    (case input_ids args of
                       Some ids \<Rightarrow>
                         map (\<lambda>row. int (length (filter (\<lambda>t. t \<noteq> xlm_pad_index self) row))) ids
                     | None \<Rightarrow> replicate bs (int slen)))
          in if length lengths \<noteq> bs then Inl AssertionError
             else bind_err (tensor_max lengths) (\<lambda>mx.
               if \<not> mx \<le> int slen then Inl AssertionError
               else bind_err (get_masks slen lengths (xlm_causal self) (attention_mask args))
                 (\<lambda>(pmask, am).
                   bind_err
                     (case position_ids_arg args of
                        None \<Rightarrow> Inr [take slen (position_ids self)]
                      | Some p \<Rightarrow> Inl TypeError)
                     (\<lambda>pos.
                       (case langs args of
                          None \<Rightarrow> Inr (bs, slen, pmask, am, pos)
                        | Some l \<Rightarrow> Inl TypeError))))))"

text \<open>\<^verbatim>\<open>get_head_mask\<close> followed by \<^verbatim>\<open>head_mask[i]\<close>.\<close>

definition layer_head_mask :: "head_mask_arg option \<Rightarrow> nat \<Rightarrow> error + real list option" where
  "layer_head_mask hm i =
     (case hm of
        None \<Rightarrow> Inr None
      | Some (HeadMask1 v) \<Rightarrow> Inr (Some v)
      | Some (HeadMask2 rows) \<Rightarrow> if i < length rows then Inr (Some (rows ! i)) else Inl IndexError)"

text \<open>
  The feed-forward sublayer on a tensor of shape \<open>(bs, len, dim)\<close>: the slices along axis 1
  go through \<^verbatim>\<open>TransformerFFN.construct\<close>.
\<close>

definition ffn_apply :: "real transformer_ffn \<Rightarrow> tensor3 \<Rightarrow> error + tensor3" where
  "ffn_apply ffn t =
     bind_err (TransformerFFN_construct ffn (map (\<lambda>l. map (\<lambda>row. row ! l) t) [0..<size1 t]))
       (\<lambda>out. Inr (map (\<lambda>b. map (\<lambda>slice. slice ! b) out) [0..<length t]))"

text \<open>
  One round of the loop on lines 603 to 633.  The state is the tensor, the cache and the
  two tuples that collect hidden states and attentions.
\<close>

definition xlm_layer ::
  "xlm_model \<Rightarrow> dropout_draws \<Rightarrow> bool list list \<Rightarrow> attn_mask \<Rightarrow> head_mask_arg option \<Rightarrow>
     bool \<Rightarrow> bool \<Rightarrow> nat \<Rightarrow>
     tensor3 \<times> kv_cache option \<times> tensor3 list \<times> tensor4 list \<Rightarrow>
     error + (tensor3 \<times> kv_cache option \<times> tensor3 list \<times> tensor4 list)" where
  "xlm_layer self draws pmask am hm out_att out_hid i st =
     (case st of (tensor, cache, hidden, atts) \<Rightarrow>
       (let hidden' = (if out_hid then hidden @ [tensor] else hidden)
        in if \<not> (i < length (attentions self) \<and> i < length (layer_norm1 self)
                  \<and> i < length (ffns self) \<and> i < length (layer_norm2 self))
           then Inl IndexError
           else
             bind_err (layer_head_mask hm i) (\<lambda>hmi.
             bind_err (MultiHeadAttention_construct (attentions self ! i) (drop_weights draws)
                         tensor am None cache hmi out_att) (\<lambda>((attn, w), cache').
               (let atts' = (case w of Some x \<Rightarrow> atts @ [x] | None \<Rightarrow> atts);
                    attn' = (if xlm_training self then drop_hidden draws attn else attn)
                in bind_err (add3 tensor attn') (\<lambda>t1.
                   bind_err (map_err (map_err (layer_norm_apply (layer_norm1 self ! i))) t1) (\<lambda>t2.
                   bind_err (ffn_apply (ffns self ! i) t2) (\<lambda>f.
                   bind_err (add3 t2 f) (\<lambda>t3.
                   bind_err (map_err (map_err (layer_norm_apply (layer_norm2 self ! i))) t3) (\<lambda>t4.
                   bind_err (mul_mask t4 pmask) (\<lambda>t5.
                     Inr (t5, cache', hidden', atts'))))))))))))"

fun xlm_layers ::
  "xlm_model \<Rightarrow> dropout_draws \<Rightarrow> bool list list \<Rightarrow> attn_mask \<Rightarrow> head_mask_arg option \<Rightarrow>
     bool \<Rightarrow> bool \<Rightarrow> nat list \<Rightarrow>
     tensor3 \<times> kv_cache option \<times> tensor3 list \<times> tensor4 list \<Rightarrow>
     error + (tensor3 \<times> kv_cache option \<times> tensor3 list \<times> tensor4 list)" where
  "xlm_layers self draws pmask am hm out_att out_hid [] st = Inr st"
| "xlm_layers self draws pmask am hm out_att out_hid (i # is) st =
     bind_err (xlm_layer self draws pmask am hm out_att out_hid i st)
       (xlm_layers self draws pmask am hm out_att out_hid is)"

text \<open>Lines 587 to 598: the embedding stage on the (possibly trimmed) inputs.\<close>

definition xlm_embed ::
  "xlm_model \<Rightarrow> dropout_draws \<Rightarrow> xlm_inputs \<Rightarrow> int list list option \<Rightarrow> int list list \<Rightarrow>
     int list list option \<Rightarrow> bool list list \<Rightarrow> error + tensor3" where
  "xlm_embed self draws args ids pos lng pmask =
     bind_err
       (case inputs_embeds args of
          Some e \<Rightarrow> Inr e
        | None \<Rightarrow>
           (case ids of Some x \<Rightarrow> embedding_lookup (embeddings self) x | None \<Rightarrow> Inl AttributeError))
       (\<lambda>emb.
         bind_err (embedding_lookup (position_embeddings self) pos) (\<lambda>pe.
         bind_err (add3_expand emb pe) (\<lambda>t0.
         bind_err
           (case lng of
              Some l \<Rightarrow>
                if xlm_use_lang_emb self \<and> xlm_n_langs self > 1
                then (case lang_embeddings self of
                        None \<Rightarrow> Inl AttributeError
                      | Some table \<Rightarrow> bind_err (embedding_lookup table l) (add3 t0))
                else Inr t0
            | None \<Rightarrow> Inr t0)
           (\<lambda>t1.
             bind_err
               (case token_type_ids args of
                  Some tt \<Rightarrow> bind_err (embedding_lookup (embeddings self) tt) (add3 t1)
                | None \<Rightarrow> Inr t1)
               (\<lambda>t2.
                 bind_err (map_err (map_err (layer_norm_apply (layer_norm_emb self))) t2) (\<lambda>t3.
                   mul_mask (if xlm_training self then drop_hidden draws t3 else t3) pmask))))))"

text \<open>
  \<^verbatim>\<open>XLMModel.construct\<close>.  With a cache, line 641 reads \<^verbatim>\<open>tensor.size(1)\<close> after the layers have
  run; \<^verbatim>\<open>size\<close> is an integer property, so the call is a \<^verbatim>\<open>TypeError\<close> and the length counter
  is not assigned.  A call that returns was given no cache.
\<close>

definition XLMModel_construct ::
  "xlm_model \<Rightarrow> dropout_draws \<Rightarrow> xlm_inputs \<Rightarrow> kv_cache option \<Rightarrow> error + xlm_outputs" where
  "XLMModel_construct self draws args cache =
     (let out_att = (case output_attentions args of Some b \<Rightarrow> b | None \<Rightarrow> config_output_attentions self);
          out_hid = (case output_hidden_states args of
                       Some b \<Rightarrow> b | None \<Rightarrow> config_output_hidden_states self)
      in bind_err (xlm_prepare self args) (\<lambda>(bs, slen, pmask0, am0, pos0).
         bind_err
           (case cache of
              Some c \<Rightarrow>
                (case input_ids args of
                   Some ids \<Rightarrow>
                     (case cache_slen c of
                        None \<Rightarrow> Inl KeyError
                      | Some sl \<Rightarrow>
                         (let k = int slen - sl
                          in Inr (Some (map (py_slice_last k) ids), map (py_slice_last k) pos0,
                                  map_option (map (py_slice_last k)) (langs args),
                                  map (py_slice_last k) pmask0, slice_attn_mask k am0)))
                 | None \<Rightarrow> Inr (None, pos0, langs args, pmask0, am0))
            | None \<Rightarrow> Inr (input_ids args, pos0, langs args, pmask0, am0))
           (\<lambda>(ids, pos, lng, pmask, am).
             bind_err (xlm_embed self draws args ids pos lng pmask) (\<lambda>tensor0.
             bind_err (xlm_layers self draws pmask am (head_mask args) out_att out_hid
                         [0..<xlm_n_layers self] (tensor0, cache, [], [])) (\<lambda>(tensor, cache1, hidden, atts).
               (case cache of
                  Some c \<Rightarrow> Inl TypeError
                | None \<Rightarrow>
                    Inr \<lparr>out_tensor = tensor,
                         out_hidden_states = (if out_hid then Some (hidden @ [tensor]) else None),
                         out_attentions = (if out_att then Some atts else None)\<rparr>))))))"

text \<open>
  A model of one layer for concrete runs: one head of size one, identity projections,
  ReLU, no chunking, evaluation mode, not causal; tokens 1 and 2, padding index 0.
\<close>

definition norm_example :: layer_norm where
  "norm_example = \<lparr>ln_gamma = [1], ln_beta = [1], ln_eps = 1\<rparr>"

definition ffn_unit :: "real transformer_ffn" where
  "ffn_unit = \<lparr>lin1 = \<lparr>weight = [[1]], bias = Some [0]\<rparr>,
               lin2 = \<lparr>weight = [[1]], bias = Some [0]\<rparr>,
               act = (\<lambda>x. max 0 x), chunk_size_feed_forward = 0,
               training = False, dropout_fn = (\<lambda>x. x)\<rparr>"

definition xlm_example :: xlm_model where
  "xlm_example =
     \<lparr>xlm_causal = False, xlm_pad_index = 0, xlm_n_langs = 1, xlm_use_lang_emb = True,
      xlm_n_layers = 1, xlm_training = False,
      position_embeddings = [[0], [0], [0], [0]], lang_embeddings = None,
      embeddings = [[0], [1], [2]], layer_norm_emb = norm_example,
      attentions = [attention_unit], layer_norm1 = [norm_example],
      ffns = [ffn_unit], layer_norm2 = [norm_example],
      position_ids = [0, 1, 2, 3],
      config_output_attentions = False, config_output_hidden_states = False\<rparr>"

definition draws_example :: dropout_draws where
  "draws_example = \<lparr>drop_hidden = (\<lambda>t. t), drop_weights = (\<lambda>w. w)\<rparr>"

definition ids_only :: "int list list \<Rightarrow> xlm_inputs" where
  "ids_only ids =
     \<lparr>input_ids = Some ids, attention_mask = None, langs = None, token_type_ids = None,
      position_ids_arg = None, lengths_arg = None, head_mask = None, inputs_embeds = None,
      output_attentions = None, output_hidden_states = None\<rparr>"

definition fresh_cache :: kv_cache where
  "fresh_cache = \<lparr>cache_slen = Some 0, cache_layers = Map.empty\<rparr>"

section \<open>Properties\<close>

subsection \<open>Masks\<close>

lemma get_masks_noncausal_returns:
  assumes "lengths \<noteq> []" and "Max (set lengths) \<le> int slen" and "0 < slen"
  shows "get_masks slen lengths False None =
           Inr (map (\<lambda>l. map (\<lambda>a. int a < l) [0..<slen]) lengths,
                Mask2 (map (\<lambda>l. map (\<lambda>a. int a < l) [0..<slen]) lengths))"
  using assms
  by (simp add: get_masks_def np_arange_def tensor_max_def has_shape2_def list_all_iff
      bind_err_def Let_def)

lemma get_masks_None_result:
  assumes "get_masks slen lengths causal None = Inr (pm, am)"
  shows "pm = map (\<lambda>l. map (\<lambda>a. int a < l) [0..<slen]) lengths"
  using assms
  by (auto simp: get_masks_def np_arange_def tensor_max_def tensor_repeat3_def bind_err_def
      Let_def split: if_splits)

text \<open>
  C4.  Without an external padding mask, the padding mask that \<^verbatim>\<open>get_masks\<close> returns is true
  at \<open>(b, t)\<close> exactly when \<open>t < lengths[b]\<close>.  The call returns whenever the lengths are
  bounded by a positive sequence length and the causal flag is off (with the flag on
  line 86 raises, for length zero line 76 does).  For batch size 2, length 5 and lengths
  \<open>[3, 5]\<close> the rows are \<open>[T,T,T,F,F]\<close> and \<open>[T,T,T,T,T]\<close>.
\<close>

theorem get_masks_padding:
  "(lengths \<noteq> [] \<and> Max (set lengths) \<le> int slen \<and> 0 < slen \<longrightarrow>
      (\<exists>pmask. get_masks slen lengths False None = Inr (pmask, Mask2 pmask)
         \<and> has_shape2 pmask (length lengths) slen
         \<and> (\<forall>b < length lengths. \<forall>t < slen. valid pmask b t = (int t < lengths ! b))))
   \<and> (get_masks slen lengths causal None = Inr (pm, am) \<longrightarrow>
        (\<forall>b < length lengths. \<forall>t < slen. valid pm b t = (int t < lengths ! b)))
   \<and> get_masks 5 [3, 5] False None =
        Inr ([[True, True, True, False, False], [True, True, True, True, True]],
             Mask2 [[True, True, True, False, False], [True, True, True, True, True]])"
proof (intro conjI impI)
  assume a: "lengths \<noteq> [] \<and> Max (set lengths) \<le> int slen \<and> 0 < slen"
  let ?pmask = "map (\<lambda>l. map (\<lambda>a. int a < l) [0..<slen]) lengths"
  have "has_shape2 ?pmask (length lengths) slen"
    by (simp add: has_shape2_def list_all_iff)
  moreover have "\<forall>b < length lengths. \<forall>t < slen. valid ?pmask b t = (int t < lengths ! b)"
    by (simp add: valid_def)
  moreover have "get_masks slen lengths False None = Inr (?pmask, Mask2 ?pmask)"
    using a by (intro get_masks_noncausal_returns) simp_all
  ultimately show "\<exists>pmask. get_masks slen lengths False None = Inr (pmask, Mask2 pmask)
         \<and> has_shape2 pmask (length lengths) slen
         \<and> (\<forall>b < length lengths. \<forall>t < slen. valid pmask b t = (int t < lengths ! b))"
    by blast
next
  assume "get_masks slen lengths causal None = Inr (pm, am)"
  then have "pm = map (\<lambda>l. map (\<lambda>a. int a < l) [0..<slen]) lengths"
    by (rule get_masks_None_result)
  then show "\<forall>b < length lengths. \<forall>t < slen. valid pm b t = (int t < lengths ! b)"
    by (simp add: valid_def)
next
  have "get_masks 5 [3, 5] False None =
          Inr (map (\<lambda>l. map (\<lambda>a. int a < l) [0..<5]) [3, 5],
               Mask2 (map (\<lambda>l. map (\<lambda>a. int a < l) [0..<5]) [3, 5]))"
    by (rule get_masks_noncausal_returns) simp_all
  moreover have "map (\<lambda>l. map (\<lambda>a. int a < l) [0..<5]) [3, 5]
                  = [[True, True, True, False, False], [True, True, True, True, True]]"
    by (simp add: upt_rec)
  ultimately show "get_masks 5 [3, 5] False None =
        Inr ([[True, True, True, False, False], [True, True, True, True, True]],
             Mask2 [[True, True, True, False, False], [True, True, True, True, True]])"
    by simp
qed

theorem get_masks_padding_witness:
  "[3, 5 :: int] \<noteq> [] \<and> Max (set [3, 5 :: int]) \<le> int 5 \<and> (0::nat) < 5
   \<and> (\<exists>pmask. get_masks 5 [3, 5] False None = Inr (pmask, Mask2 pmask)
        \<and> has_shape2 pmask 2 5
        \<and> valid pmask 0 2 \<and> \<not> valid pmask 0 3 \<and> valid pmask 1 4)"
proof -
  have h: "[3, 5 :: int] \<noteq> [] \<and> Max (set [3, 5 :: int]) \<le> int 5 \<and> (0::nat) < 5" by simp
  from get_masks_padding [of "[3, 5]" 5] h
  obtain pmask where r: "get_masks 5 [3, 5] False None = Inr (pmask, Mask2 pmask)"
    and sh: "has_shape2 pmask (length [3, 5 :: int]) 5"
    and v: "\<forall>b < length [3, 5 :: int]. \<forall>t < 5. valid pmask b t = (int t < [3, 5] ! b)"
    by blast
  from v have "valid pmask 0 2 = (int 2 < [3, 5] ! 0)" by simp
  moreover from v have "valid pmask 0 3 = (int 3 < [3, 5] ! 0)" by simp
  moreover from v have "valid pmask 1 4 = (int 4 < [3, 5] ! 1)" by simp
  ultimately have "valid pmask 0 2 \<and> \<not> valid pmask 0 3 \<and> valid pmask 1 4" by simp
  moreover from sh have "has_shape2 pmask 2 5" by (simp add: numeral_2_eq_2)
  ultimately show ?thesis using r h by blast
qed

text \<open>
  C2.  The claim describes the attention mask that \<^verbatim>\<open>get_masks\<close> returns with the causal flag
  set: \<open>attend(b,i,j) = (j \<le> i) \<and> valid(b,j)\<close>.  With the flag set the call reaches line 86,
  whose \<^verbatim>\<open>repeat(bs, slen, 1)\<close> is rejected, so no causal call returns a mask; for one
  sequence of valid length 1 and length 2 the result is the \<^verbatim>\<open>TypeError\<close>.
\<close>

theorem get_masks_causal_raises:
  "isl (get_masks slen lengths True padding_mask)
   \<and> get_masks 2 [1] True None = Inl TypeError"
proof
  show "isl (get_masks slen lengths True padding_mask)"
    by (auto simp: get_masks_def tensor_repeat3_def bind_err_def Let_def split: sum.splits)
  show "get_masks 2 [1] True None = Inl TypeError"
    by (simp add: get_masks_def np_arange_def tensor_max_def tensor_repeat3_def bind_err_def
        Let_def)
qed

theorem get_masks_causal_raises_witness:
  "get_masks 3 [2, 3] True None \<noteq> Inr ([[True, True, False], [True, True, True]], Mask3 [])"
  using get_masks_causal_raises [of 3 "[2, 3]" None] by auto

subsection \<open>Chunked feed-forward\<close>

lemma concat_split_every: "0 < k \<Longrightarrow> concat (split_every k xs) = xs"
proof (induction k xs rule: split_every.induct)
  case (1 k xs)
  show ?case
  proof (cases "xs = []")
    case True
    then show ?thesis by (simp add: split_every.simps [of k "[]"])
  next
    case False
    with 1 show ?thesis by (simp add: split_every.simps [of k xs])
  qed
qed

lemma split_every_eq_Nil: "0 < k \<Longrightarrow> (split_every k xs = []) = (xs = [])"
  by (simp add: split_every.simps [of k xs])

lemma map_err_append:
  "map_err f (xs @ ys) =
     (case map_err f xs of
        Inl e \<Rightarrow> Inl e
      | Inr a \<Rightarrow> (case map_err f ys of Inl e \<Rightarrow> Inl e | Inr b \<Rightarrow> Inr (a @ b)))"
  by (induction xs) (auto split: sum.splits)

lemma map_err_concat:
  "map_err f (concat xss) =
     (case map_err (map_err f) xss of Inl e \<Rightarrow> Inl e | Inr yss \<Rightarrow> Inr (concat yss))"
  by (induction xss) (auto simp: map_err_append split: sum.splits)

lemma map_err_eq_Nil: "map_err f xs = Inr ys \<Longrightarrow> (ys = []) = (xs = [])"
  by (cases xs) (auto split: sum.splits)

lemma map_err_map: "map_err f (map g xs) = map_err (\<lambda>x. f (g x)) xs"
  by (induction xs) (auto split: sum.splits)

lemma zip_star_single: "zip_star [cs] = map (\<lambda>c. [c]) cs"
  by (rule nth_equalityI) (simp_all add: zip_star_def)

text \<open>With \<open>len = n * c\<close> and \<open>n > 0\<close>, \<^verbatim>\<open>chunk(n)\<close> cuts pieces of exactly \<open>c\<close> slices.\<close>

lemma chunk_piece_size:
  assumes "0 < c" and "int len mod c = 0" and "0 < len"
  shows "0 < nat (int len div c)"
    and "(len + nat (int len div c) - 1) div nat (int len div c) = nat c"
proof -
  define n where "n = nat (int len div c)"
  have "int len = c * (int len div c)" using assms(2) by (simp add: mod_eq_0_iff_dvd)
  moreover have "0 \<le> int len div c" using assms(1) by (simp add: pos_imp_zdiv_nonneg_iff)
  ultimately have len: "len = n * nat c"
    unfolding n_def using assms(1)
    by (metis mult.commute nat_int nat_mult_distrib)
  with assms(3) show npos: "0 < nat (int len div c)"
    unfolding n_def by (cases "nat (int len div c) = 0") simp_all
  then have n0: "0 < n" by (simp add: n_def)
  then obtain m where m: "n = Suc m" by (cases n) simp_all
  have "len + n - 1 = m + nat c * Suc m" using len m by (simp add: mult.commute)
  moreover have "(m + nat c * Suc m) div Suc m = nat c + m div Suc m"
    by (rule div_mult_self1) simp
  moreover have "m div Suc m = 0" by simp
  ultimately have "(len + n - 1) div n = nat c" using m by (simp only: add_0_right)
  then show "(len + nat (int len div c) - 1) div nat (int len div c) = nat c"
    by (simp add: n_def)
qed

lemma ff_chunk_eval:
  "\<not> training ffn \<Longrightarrow> ff_chunk ffn = map_err (map_err (ff_vector ffn))"
  by (rule ext) (simp add: ff_chunk_def split: sum.splits)

lemma tensor_cat_map_err:
  assumes "chunks \<noteq> []"
  shows "(case map_err (map_err f) chunks of Inl e \<Rightarrow> Inl e | Inr out \<Rightarrow> tensor_cat out)
           = map_err f (concat chunks)"
proof (cases "map_err (map_err f) chunks")
  case (Inl e)
  then show ?thesis by (simp add: map_err_concat)
next
  case (Inr out)
  with assms have "out \<noteq> []" using map_err_eq_Nil by blast
  with Inr show ?thesis by (simp add: map_err_concat tensor_cat_def)
qed

lemma ffn_example_run:
  "ff_chunk ffn_example [[[1]], [[-5]], [[2]], [[3]]] = Inr [[[7]], [[3]], [[10]], [[13]]]"
  by (simp add: ff_chunk_def ff_vector_def dense_apply_def dot_def ffn_example_def)

text \<open>
  C5.  The claim covers a sequence axis of extent zero, which every positive chunk size
  divides.  There the number of chunks is \<open>0 // chunk_size = 0\<close> and the chunked path raises,
  while the unchunked forward function, and the same sublayer with chunking switched off
  (line 209), return the empty tensor.
\<close>

theorem chunked_ffn_empty_raises:
  "0 < chunk_size_feed_forward ffn_example
   \<and> int (length ([] :: int list list list)) mod chunk_size_feed_forward ffn_example = 0
   \<and> TransformerFFN_construct ffn_example [] = Inl TensorError
   \<and> ff_chunk ffn_example [] = Inr []
   \<and> TransformerFFN_construct (ffn_example\<lparr>chunk_size_feed_forward := 0\<rparr>) [] = Inr []"
  by (simp add: TransformerFFN_construct_def apply_chunking_to_forward_def ffn_example_def
      tensor_chunk_def ff_chunk_def)

theorem chunked_ffn_empty_raises_witness:
  "TransformerFFN_construct ffn_example [] \<noteq> ff_chunk ffn_example []"
  using chunked_ffn_empty_raises by simp

text \<open>
  On a non-empty sequence axis the two paths agree: in evaluation mode, for every positive
  chunk size that divides the extent, the chunked feed-forward returns exactly what the
  unchunked \<^verbatim>\<open>ff_chunk\<close> returns on the whole input (the same tensor, or the same error).
\<close>

theorem chunked_ffn_equals_unchunked:
  assumes "\<not> training ffn"
    and "0 < chunk_size_feed_forward ffn"
    and "int (length input) mod chunk_size_feed_forward ffn = 0"
    and "input \<noteq> []"
  shows "TransformerFFN_construct ffn input = ff_chunk ffn input"
proof -
  let ?c = "chunk_size_feed_forward ffn"
  let ?n = "nat (int (length input) div ?c)"
  let ?chunks = "split_every (nat ?c) input"
  from assms(4) have len: "0 < length input" by simp
  note sz = chunk_piece_size [OF assms(2) assms(3) len]
  have chunk: "map_err (tensor_chunk ?n) [input] = Inr [?chunks]"
    using sz assms(4) by (simp add: tensor_chunk_def)
  have cpos: "0 < nat ?c" using assms(2) by simp
  have ne: "?chunks \<noteq> []" using split_every_eq_Nil [OF cpos] assms(4) by blast
  have fwd: "map_err (\<lambda>args. ff_chunk ffn (hd args)) (zip_star [?chunks])
               = map_err (map_err (map_err (ff_vector ffn))) ?chunks"
    by (simp add: zip_star_single map_err_map ff_chunk_eval [OF assms(1)])
  have "TransformerFFN_construct ffn input =
          (case map_err (map_err (map_err (ff_vector ffn))) ?chunks of
             Inl e \<Rightarrow> Inl e | Inr out \<Rightarrow> tensor_cat out)"
    using assms(2) assms(3) chunk fwd
    by (simp add: TransformerFFN_construct_def apply_chunking_to_forward_def Let_def)
  also have "\<dots> = map_err (map_err (ff_vector ffn)) (concat ?chunks)"
    by (rule tensor_cat_map_err [OF ne])
  also have "\<dots> = ff_chunk ffn input"
    by (simp add: concat_split_every [OF cpos] ff_chunk_eval [OF assms(1)])
  finally show ?thesis .
qed

theorem chunked_ffn_equals_unchunked_witness:
  "\<not> training ffn_example \<and> 0 < chunk_size_feed_forward ffn_example
   \<and> int (length [[[1]], [[-5]], [[2]], [[3 :: int]]]) mod chunk_size_feed_forward ffn_example = 0
   \<and> [[[1]], [[-5]], [[2]], [[3 :: int]]] \<noteq> []
   \<and> TransformerFFN_construct ffn_example [[[1]], [[-5]], [[2]], [[3]]]
       = Inr [[[7]], [[3]], [[10]], [[13]]]"
proof -
  have h1: "\<not> training ffn_example" and h2: "0 < chunk_size_feed_forward ffn_example"
    and h3: "int (length [[[1]], [[-5]], [[2]], [[3 :: int]]]) mod chunk_size_feed_forward ffn_example = 0"
    and h4: "[[[1]], [[-5]], [[2]], [[3 :: int]]] \<noteq> []"
    by (simp_all add: ffn_example_def)
  from chunked_ffn_equals_unchunked [OF h1 h2 h3 h4] ffn_example_run
  have "TransformerFFN_construct ffn_example [[[1]], [[-5]], [[2]], [[3]]]
          = Inr [[[7]], [[3]], [[10]], [[13]]]"
    by simp
  with h1 h2 h3 h4 show ?thesis by blast
qed

text \<open>
  C8.  With a positive chunk size that does not divide the extent of the chunked axis,
  \<^verbatim>\<open>apply_chunking_to_forward\<close> returns no tensor: it raises.  For the feed-forward sublayer
  the error is the \<^verbatim>\<open>ValueError\<close> that names the extent and the chunk size.
\<close>

theorem chunked_raises:
  "(0 < chunk_size \<and> input_tensors \<noteq> [] \<and> int (length (hd input_tensors)) mod chunk_size \<noteq> 0
      \<longrightarrow> isl (apply_chunking_to_forward n_params forward_fn chunk_size input_tensors))
   \<and> (0 < chunk_size_feed_forward ffn \<and> int (length input) mod chunk_size_feed_forward ffn \<noteq> 0
      \<longrightarrow> TransformerFFN_construct ffn input
            = Inl (ChunkNotMultiple (length input) (chunk_size_feed_forward ffn)))"
  by (auto simp: apply_chunking_to_forward_def TransformerFFN_construct_def Let_def
      split: option.splits)

theorem chunked_raises_witness:
  "(0::int) < 2 \<and> [[[[1]], [[-5]], [[2 :: int]]]] \<noteq> []
   \<and> int (length (hd [[[[1]], [[-5]], [[2 :: int]]]])) mod 2 \<noteq> 0
   \<and> isl (apply_chunking_to_forward 1 (\<lambda>args. ff_chunk ffn_example (hd args)) 2
            [[[[1]], [[-5]], [[2]]]])
   \<and> 0 < chunk_size_feed_forward ffn_example
   \<and> int (length [[[1]], [[-5]], [[2 :: int]]]) mod chunk_size_feed_forward ffn_example \<noteq> 0
   \<and> TransformerFFN_construct ffn_example [[[1]], [[-5]], [[2]]] = Inl (ChunkNotMultiple 3 2)"
  using chunked_raises [of 2 "[[[[1]], [[-5]], [[2 :: int]]]]" 1
      "\<lambda>args. ff_chunk ffn_example (hd args)" ffn_example "[[[1]], [[-5]], [[2 :: int]]]"]
  by (simp add: ffn_example_def)

subsection \<open>Prediction layer\<close>

text \<open>
  C10.  A prediction layer built with \<^verbatim>\<open>config.asm\<close> true has no \<^verbatim>\<open>proj\<close> attribute, and every
  call of \<^verbatim>\<open>construct\<close> on it raises \<^verbatim>\<open>AttributeError\<close>.  Whenever \<^verbatim>\<open>construct\<close> returns, the
  layer was built with \<^verbatim>\<open>asm\<close> false and the result is \<open>(scores,)\<close> without labels and
  \<open>(loss, scores)\<close> with labels.
\<close>

theorem pred_layer_asm:
  "(asm config \<longrightarrow>
      pl_proj (XLMPredLayer_init config fresh_proj) = None
      \<and> XLMPredLayer_construct ce (XLMPredLayer_init config fresh_proj) x y = Inl AttributeError)
   \<and> (XLMPredLayer_construct ce (XLMPredLayer_init config fresh_proj) x y = Inr out \<longrightarrow>
        \<not> asm config
        \<and> (case y of
             None \<Rightarrow> \<exists>s. out = [Scores s]
           | Some labels \<Rightarrow> \<exists>l s. out = [Loss l, Scores s]))"
  by (auto simp: XLMPredLayer_init_def XLMPredLayer_construct_def
      split: sum.splits option.splits if_splits)

lemma pred_layer_example_run:
  "XLMPredLayer_construct ce_example (XLMPredLayer_init (pred_config_example False) proj_example)
      [[[1], [3]]] (Some [[0, 1]])
     = Inr [Loss 2, Scores [[[1, 3], [3, 7]]]]"
  by (simp add: XLMPredLayer_construct_def XLMPredLayer_init_def pred_config_example_def
      proj_example_def ce_example_def dense_apply_def dot_def view_rows_def
      split_every.simps [of 2])

theorem pred_layer_asm_witness:
  "asm (pred_config_example True)
   \<and> pl_proj (XLMPredLayer_init (pred_config_example True) proj_example) = None
   \<and> XLMPredLayer_construct ce_example (XLMPredLayer_init (pred_config_example True) proj_example)
        [[[1], [3]]] (Some [[0, 1]]) = Inl AttributeError
   \<and> XLMPredLayer_construct ce_example (XLMPredLayer_init (pred_config_example False) proj_example)
        [[[1], [3]]] (Some [[0, 1]]) = Inr [Loss 2, Scores [[[1, 3], [3, 7]]]]
   \<and> \<not> asm (pred_config_example False)"
proof -
  have a: "asm (pred_config_example True)" by (simp add: pred_config_example_def)
  from pred_layer_asm [of "pred_config_example True" proj_example ce_example
      "[[[1], [3]]]" "Some [[0, 1]]" "[]"] a
  have "pl_proj (XLMPredLayer_init (pred_config_example True) proj_example) = None
        \<and> XLMPredLayer_construct ce_example
             (XLMPredLayer_init (pred_config_example True) proj_example)
             [[[1], [3]]] (Some [[0, 1]]) = Inl AttributeError"
    by blast
  moreover from pred_layer_asm [of "pred_config_example False" proj_example ce_example
      "[[[1], [3]]]" "Some [[0, 1]]" "[Loss 2, Scores [[[1, 3], [3, 7]]]]"] pred_layer_example_run
  have "\<not> asm (pred_config_example False)" by blast
  ultimately show ?thesis using a pred_layer_example_run by blast
qed

subsection \<open>Head pruning\<close>

lemma find_pruneable_raises:
  "find_pruneable_heads_and_indices heads nh head_size already_pruned_heads = Inl TypeError"
  by (simp add: find_pruneable_heads_and_indices_def ops_ones_def bind_err_def)

lemma prune_linear_layer_raises: "isl (prune_linear_layer layer index d)"
  by (simp add: prune_linear_layer_def tensor_to_device_def bind_err_def)

lemma prune_heads_result:
  "prune_heads s heads =
     (s, if n_heads s = 0 then Some ZeroDivisionError
         else if heads = [] then None else Some TypeError)"
  by (simp add: prune_heads_def find_pruneable_raises)

text \<open>
  C6.  The claim describes what \<^verbatim>\<open>prune_heads\<close> does to the projections, to \<^verbatim>\<open>n_heads\<close> and to
  \<^verbatim>\<open>pruned_heads\<close> for a non-empty list of fresh head indices.  Every such call raises
  instead: \<^verbatim>\<open>find_pruneable_heads_and_indices\<close> fails on line 61 before \<^verbatim>\<open>prune_heads\<close> has
  assigned anything, so the cell stays as it was.  For two heads of size one and the list
  \<open>[1]\<close>, \<^verbatim>\<open>n_heads\<close> stays 2 and \<^verbatim>\<open>pruned_heads\<close> stays empty.
\<close>

theorem prune_heads_never_prunes:
  "fst (prune_heads s heads) = s
   \<and> (n_heads s \<noteq> 0 \<and> heads \<noteq> [] \<longrightarrow> snd (prune_heads s heads) = Some TypeError)
   \<and> prune_heads attention_example [1] = (attention_example, Some TypeError)
   \<and> n_heads attention_example = 2 \<and> pruned_heads attention_example = {}"
  by (simp add: prune_heads_result attention_example_def)

theorem prune_heads_never_prunes_witness:
  "n_heads attention_example \<noteq> 0 \<and> [0, 1 :: int] \<noteq> []
   \<and> snd (prune_heads attention_example [0, 1]) = Some TypeError
   \<and> n_heads (fst (prune_heads attention_example [0, 1])) = 2"
  using prune_heads_never_prunes [of attention_example "[0, 1]"]
  by (simp add: attention_example_def)

text \<open>
  C7.  Pruning the same head index twice leaves the state after the second call equal to the
  state after the first, for every state of the cell and every index, and a call with an
  empty list changes nothing.  (Both calls with an index raise on line 61, or at the
  division on line 309 when \<^verbatim>\<open>n_heads\<close> is 0, and neither touches the cell.)
\<close>

theorem prune_heads_idempotent:
  "fst (prune_heads (fst (prune_heads s [h])) [h]) = fst (prune_heads s [h])
   \<and> fst (prune_heads s []) = s"
  by (simp add: prune_heads_result)

theorem prune_heads_idempotent_witness:
  "fst (prune_heads (fst (prune_heads attention_example [1])) [1])
     = fst (prune_heads attention_example [1])
   \<and> fst (prune_heads attention_example [1]) = attention_example
   \<and> fst (prune_heads attention_example []) = attention_example"
  using prune_heads_idempotent [of attention_example 1] by (simp add: prune_heads_result)

subsection \<open>Attention scores and the mask\<close>

lemma shape_heads_unit: "shape_heads (Suc 0) 1 1 [[[a], [b]]] = Inr [[[[a], [b]]]]"
  by (simp add: shape_heads_def Let_def upt_rec)

lemma attention_unit_scores:
  "attention_scores attention_unit [[[1], [1]]] (Mask2 [[True, False]]) None None
     = Inr ([[[[1, 1], [1, 1]]]], [[[[1], [1]]]], None)"
  by (simp add: attention_scores_def attention_unit_def key_length_def bind_err_def
      project_heads_def fresh_keys_values_def merge_cache_def dense_apply_def dot_def
      shape_heads_unit matmul_qk_def zip_with_err_def mask_view_expand_def Let_def upt_rec)

lemma attention_unit_mask:
  "mask_view_expand (Mask2 [[True, False]]) 1 1 2 2 2 = Inr [[[[False, True], [False, True]]]]"
  by (simp add: mask_view_expand_def upt_rec Let_def)

text \<open>What \<^verbatim>\<open>masked_fill\<close> returns on these scores, had the result been kept.\<close>

lemma attention_unit_fill:
  "masked_fill [[[[False, True], [False, True]]]] float32_min [[[[1, 1], [1, 1]]]]
     = [[[[1, float32_min], [1, float32_min]]]]"
  by (simp add: masked_fill_def)

lemma softmax_pair: "softmax [a, a] = [1 / 2, 1 / 2]"
proof -
  have "exp a / (exp a + exp a) = 1 / 2"
    by (simp add: field_simps)
  then show ?thesis by (simp add: softmax_def)
qed

lemma attention_unit_construct:
  "MultiHeadAttention_construct attention_unit (\<lambda>w. w) [[[1], [1]]] (Mask2 [[True, False]])
      None None None True
    = Inr (([[[1], [1]]], Some [[[[1 / 2, 1 / 2], [1 / 2, 1 / 2]]]]), None)"
  apply (simp add: MultiHeadAttention_construct_def attention_unit_scores bind_err_def Let_def)
  apply (simp add: attention_unit_def matmul_wv_def zip_with_err_def weighted_sum_def
      unshape_heads_def dense_apply_def dot_def Let_def upt_rec softmax_pair)
  done

text \<open>The scores that reach the softmax do not depend on the entries of the mask.\<close>

lemma attention_scores_ignores_mask:
  assumes "attention_scores self x m1 kv c = Inr r1"
    and "attention_scores self x m2 kv c = Inr r2"
  shows "r1 = r2"
  using assms
  by (auto simp: attention_scores_def bind_err_def Let_def split: sum.splits if_splits prod.splits)

text \<open>
  C1.  The claim wants every masked position of the scores set to the minimum of the dtype
  before the softmax.  For one head of size one, the input \<open>[[[1], [1]]]\<close> and the padding mask
  \<open>[[1, 0]]\<close>, the second key position is masked, yet the scores passed to the softmax are
  \<open>1\<close> everywhere and the attention weights are \<open>1/2\<close> on both positions: the tensor returned
  by \<^verbatim>\<open>masked_fill\<close> is never used.
\<close>

theorem masked_scores_unchanged:
  "attention_scores attention_unit [[[1], [1]]] (Mask2 [[True, False]]) None None
     = Inr ([[[[1, 1], [1, 1]]]], [[[[1], [1]]]], None)
   \<and> mask_view_expand (Mask2 [[True, False]]) 1 1 2 2 2
       = Inr [[[[False, True], [False, True]]]]
   \<and> (1 :: real) \<noteq> float32_min
   \<and> MultiHeadAttention_construct attention_unit (\<lambda>w. w) [[[1], [1]]] (Mask2 [[True, False]])
        None None None True
       = Inr (([[[1], [1]]], Some [[[[1 / 2, 1 / 2], [1 / 2, 1 / 2]]]]), None)"
  using attention_unit_scores attention_unit_mask attention_unit_construct
  by (simp add: float32_min_def)

theorem masked_scores_unchanged_witness:
  "attention_scores attention_unit [[[1], [1]]] (Mask2 [[True, False]]) None None
     \<noteq> Inr (masked_fill [[[[False, True], [False, True]]]] float32_min [[[[1, 1], [1, 1]]]],
             [[[[1], [1]]]], None)"
  using masked_scores_unchanged by (simp add: attention_unit_fill)

subsection \<open>The encoder stack and the cache\<close>

lemma isl_bind_err: "(\<And>x. isl (f x)) \<Longrightarrow> isl (bind_err m f)"
  by (cases m) (simp_all add: bind_err_def)

lemma construct_with_cache_raises: "isl (XLMModel_construct self draws args (Some c))"
  unfolding XLMModel_construct_def Let_def split_beta
  by (intro isl_bind_err) simp

lemma prepare_two:
  "xlm_prepare xlm_example (ids_only [[1, 2]])
     = Inr (1, 2, [[True, True]], Mask2 [[True, True]], [[0, 1]])"
  by (simp add: xlm_prepare_def xlm_example_def ids_only_def size1_def bind_err_def
      tensor_max_def get_masks_def np_arange_def has_shape2_def Let_def upt_rec)

lemma prepare_one:
  "xlm_prepare xlm_example (ids_only [[1]])
     = Inr (1, 1, [[True]], Mask2 [[True]], [[0]])"
  by (simp add: xlm_prepare_def xlm_example_def ids_only_def size1_def bind_err_def
      tensor_max_def get_masks_def np_arange_def has_shape2_def Let_def upt_rec)

lemma norm_example_apply: "layer_norm_apply norm_example [x] = Inr [1]"
  by (simp add: layer_norm_apply_def norm_example_def)

lemma embed_two:
  "xlm_embed xlm_example draws_example (ids_only [[1, 2]]) (Some [[1, 2]]) [[0, 1]] None [[True, True]]
     = Inr [[[1], [1]]]"
  by (simp add: xlm_embed_def xlm_example_def ids_only_def draws_example_def bind_err_def
      embedding_lookup_def add3_expand_def add3_def zip_with_err_def mul_mask_def
      norm_example_apply)

lemma embed_one:
  "xlm_embed xlm_example draws_example (ids_only [[1]]) (Some [[1]]) [[0]] None [[True]]
     = Inr [[[1]]]"
  by (simp add: xlm_embed_def xlm_example_def ids_only_def draws_example_def bind_err_def
      embedding_lookup_def add3_expand_def add3_def zip_with_err_def mul_mask_def
      norm_example_apply)


lemma shape_heads_one: "shape_heads (Suc 0) 1 1 [[[a]]] = Inr [[[[a]]]]"
  by (simp add: shape_heads_def Let_def upt_rec)

lemma softmax_single: "softmax [a] = [1]"
  by (simp add: softmax_def)

lemma scores_two_no_cache:
  "attention_scores attention_unit [[[1], [1]]] (Mask2 [[True, True]]) None None
     = Inr ([[[[1, 1], [1, 1]]]], [[[[1], [1]]]], None)"
  by (simp add: attention_scores_def attention_unit_def key_length_def bind_err_def
      project_heads_def fresh_keys_values_def merge_cache_def dense_apply_def dot_def
      shape_heads_unit matmul_qk_def zip_with_err_def mask_view_expand_def Let_def upt_rec)

lemma scores_two_fresh_cache:
  "attention_scores attention_unit [[[1], [1]]] (Mask2 [[True, True]]) None (Some fresh_cache)
     = Inr ([[[[1, 1], [1, 1]]]], [[[[1], [1]]]],
            Some \<lparr>cache_slen = Some 0,
                  cache_layers = [0 \<mapsto> ([[[[1], [1]]]], [[[[1], [1]]]])]\<rparr>)"
  by (simp add: attention_scores_def attention_unit_def key_length_def bind_err_def
      project_heads_def fresh_keys_values_def merge_cache_def dense_apply_def dot_def
      shape_heads_unit matmul_qk_def zip_with_err_def mask_view_expand_def Let_def upt_rec
      fresh_cache_def)

lemma scores_one_fresh_cache:
  "attention_scores attention_unit [[[1]]] (Mask2 [[True]]) None (Some fresh_cache)
     = Inr ([[[[1]]]], [[[[1]]]],
            Some \<lparr>cache_slen = Some 0, cache_layers = [0 \<mapsto> ([[[[1]]]], [[[[1]]]])]\<rparr>)"
  by (simp add: attention_scores_def attention_unit_def key_length_def bind_err_def
      project_heads_def fresh_keys_values_def merge_cache_def dense_apply_def dot_def
      shape_heads_one matmul_qk_def zip_with_err_def mask_view_expand_def Let_def upt_rec
      fresh_cache_def)

lemma construct_tail_two:
  assumes "attention_scores attention_unit [[[1], [1]]] m None c
             = Inr ([[[[1, 1], [1, 1]]]], [[[[1], [1]]]], c')"
  shows "MultiHeadAttention_construct attention_unit (\<lambda>w. w) [[[1], [1]]] m None c None False
           = Inr (([[[1], [1]]], None), c')"
  apply (simp add: MultiHeadAttention_construct_def assms bind_err_def Let_def)
  apply (simp add: attention_unit_def matmul_wv_def zip_with_err_def weighted_sum_def
      unshape_heads_def dense_apply_def dot_def Let_def upt_rec softmax_pair)
  done

lemma construct_tail_one:
  assumes "attention_scores attention_unit [[[1]]] m None c = Inr ([[[[1]]]], [[[[1]]]], c')"
  shows "MultiHeadAttention_construct attention_unit (\<lambda>w. w) [[[1]]] m None c None False
           = Inr (([[[1]]], None), c')"
  apply (simp add: MultiHeadAttention_construct_def assms bind_err_def Let_def)
  apply (simp add: attention_unit_def matmul_wv_def zip_with_err_def weighted_sum_def
      unshape_heads_def dense_apply_def dot_def Let_def upt_rec softmax_single)
  done

lemma ffn_unit_two: "ffn_apply ffn_unit [[[1], [1]]] = Inr [[[1], [1]]]"
  by (simp add: ffn_apply_def size1_def TransformerFFN_construct_def apply_chunking_to_forward_def
      ffn_unit_def ff_chunk_def ff_vector_def dense_apply_def dot_def bind_err_def upt_rec)

lemma ffn_unit_one: "ffn_apply ffn_unit [[[1]]] = Inr [[[1]]]"
  by (simp add: ffn_apply_def size1_def TransformerFFN_construct_def apply_chunking_to_forward_def
      ffn_unit_def ff_chunk_def ff_vector_def dense_apply_def dot_def bind_err_def upt_rec)

lemma layer_tail_two:
  assumes "MultiHeadAttention_construct attention_unit (\<lambda>w. w) [[[1], [1]]] am None c None False
             = Inr (([[[1], [1]]], None), c')"
  shows "xlm_layer xlm_example draws_example [[True, True]] am None False False 0
           ([[[1], [1]]], c, [], []) = Inr ([[[1], [1]]], c', [], [])"
  using assms
  by (simp add: xlm_layer_def xlm_example_def draws_example_def layer_head_mask_def bind_err_def
      add3_def zip_with_err_def norm_example_apply ffn_unit_two mul_mask_def Let_def)

lemma layer_tail_one:
  assumes "MultiHeadAttention_construct attention_unit (\<lambda>w. w) [[[1]]] am None c None False
             = Inr (([[[1]]], None), c')"
  shows "xlm_layer xlm_example draws_example [[True]] am None False False 0
           ([[[1]]], c, [], []) = Inr ([[[1]]], c', [], [])"
  using assms
  by (simp add: xlm_layer_def xlm_example_def draws_example_def layer_head_mask_def bind_err_def
      add3_def zip_with_err_def norm_example_apply ffn_unit_one mul_mask_def Let_def)

lemma py_slice_last_all: "py_slice_last (int (length xs)) xs = xs"
  by (simp add: py_slice_last_def Let_def)

lemma full_pass:
  "XLMModel_construct xlm_example draws_example (ids_only [[1, 2]]) None
     = Inr \<lparr>out_tensor = [[[1], [1]]], out_hidden_states = None, out_attentions = None\<rparr>"
proof -
  note layer = layer_tail_two [OF construct_tail_two [OF scores_two_no_cache]]
  have n: "xlm_n_layers xlm_example = 1" "config_output_attentions xlm_example = False"
    "config_output_hidden_states xlm_example = False"
    by (simp_all add: xlm_example_def)
  have a: "input_ids (ids_only [[1, 2]]) = Some [[1, 2]]" "langs (ids_only [[1, 2]]) = None"
    "head_mask (ids_only [[1, 2]]) = None" "output_attentions (ids_only [[1, 2]]) = None"
    "output_hidden_states (ids_only [[1, 2]]) = None"
    by (simp_all add: ids_only_def)
  show ?thesis
    by (simp add: XLMModel_construct_def prepare_two a n embed_two layer bind_err_def Let_def)
qed

lemma cached_pass_two:
  "XLMModel_construct xlm_example draws_example (ids_only [[1, 2]]) (Some fresh_cache)
     = Inl TypeError"
proof -
  note layer = layer_tail_two [OF construct_tail_two [OF scores_two_fresh_cache]]
  have n: "xlm_n_layers xlm_example = 1" "config_output_attentions xlm_example = False"
    "config_output_hidden_states xlm_example = False"
    by (simp_all add: xlm_example_def)
  have a: "input_ids (ids_only [[1, 2]]) = Some [[1, 2]]" "langs (ids_only [[1, 2]]) = None"
    "head_mask (ids_only [[1, 2]]) = None" "output_attentions (ids_only [[1, 2]]) = None"
    "output_hidden_states (ids_only [[1, 2]]) = None"
    by (simp_all add: ids_only_def)
  have c: "cache_slen fresh_cache = Some 0" by (simp add: fresh_cache_def)
  have sl: "py_slice_last 2 [1, 2 :: int] = [1, 2]" "py_slice_last 2 [0, 1 :: int] = [0, 1]"
    "py_slice_last 2 [True, True] = [True, True]"
    by (simp_all add: py_slice_last_def Let_def)
  show ?thesis
    by (simp add: XLMModel_construct_def prepare_two a n c sl slice_attn_mask_def embed_two layer
        bind_err_def Let_def)
qed

lemma cached_pass_one:
  "XLMModel_construct xlm_example draws_example (ids_only [[1]]) (Some fresh_cache)
     = Inl TypeError"
proof -
  note layer = layer_tail_one [OF construct_tail_one [OF scores_one_fresh_cache]]
  have n: "xlm_n_layers xlm_example = 1" "config_output_attentions xlm_example = False"
    "config_output_hidden_states xlm_example = False"
    by (simp_all add: xlm_example_def)
  have a: "input_ids (ids_only [[1]]) = Some [[1]]" "langs (ids_only [[1]]) = None"
    "head_mask (ids_only [[1]]) = None" "output_attentions (ids_only [[1]]) = None"
    "output_hidden_states (ids_only [[1]]) = None"
    by (simp_all add: ids_only_def)
  have c: "cache_slen fresh_cache = Some 0" by (simp add: fresh_cache_def)
  have sl: "py_slice_last 1 [1 :: int] = [1]" "py_slice_last 1 [0 :: int] = [0]"
    "py_slice_last 1 [True] = [True]"
    by (simp_all add: py_slice_last_def Let_def)
  show ?thesis
    by (simp add: XLMModel_construct_def prepare_one a n c sl slice_attn_mask_def embed_one layer
        bind_err_def Let_def)
qed

text \<open>
  C9.  The claim describes the cache after a call of \<^verbatim>\<open>XLMModel.construct\<close> that was given one:
  the length counter advanced by the number of new positions.  No such call returns: after
  the layers have run, line 641 raises before it assigns the counter.  For the one-layer
  model, the input \<open>[[1, 2]]\<close> and the cache \<^verbatim>\<open>{"slen": 0}\<close> the result is the \<^verbatim>\<open>TypeError\<close>.
\<close>

theorem cache_counter_never_advanced:
  "isl (XLMModel_construct self draws args (Some c))
   \<and> XLMModel_construct xlm_example draws_example (ids_only [[1, 2]]) (Some fresh_cache)
       = Inl TypeError"
  using construct_with_cache_raises cached_pass_two by blast

theorem cache_counter_never_advanced_witness:
  "XLMModel_construct xlm_example draws_example (ids_only [[2, 1]]) (Some fresh_cache)
     \<noteq> Inr \<lparr>out_tensor = [[[1], [1]]], out_hidden_states = None, out_attentions = None\<rparr>"
  using cache_counter_never_advanced [of xlm_example draws_example "ids_only [[2, 1]]" fresh_cache]
  by auto

text \<open>
  C3.  The claim compares the final hidden state of one pass over the whole input with that
  of an incremental run through a cache.  For the one-layer model and the input \<open>[[1, 2]]\<close>
  the single pass returns the hidden state \<open>[[[1], [1]]]\<close>, while the first call of the
  incremental run, on \<open>[[1]]\<close> with the fresh cache \<^verbatim>\<open>{"slen": 0}\<close>, raises on line 641: the
  incremental run yields no hidden state.
\<close>

theorem incremental_run_raises:
  "XLMModel_construct xlm_example draws_example (ids_only [[1, 2]]) None
     = Inr \<lparr>out_tensor = [[[1], [1]]], out_hidden_states = None, out_attentions = None\<rparr>
   \<and> XLMModel_construct xlm_example draws_example (ids_only [[1]]) (Some fresh_cache)
       = Inl TypeError"
  using full_pass cached_pass_one by blast

theorem incremental_run_raises_witness:
  "XLMModel_construct xlm_example draws_example (ids_only [[1]]) (Some fresh_cache)
     \<noteq> XLMModel_construct xlm_example draws_example (ids_only [[1, 2]]) None"
  using incremental_run_raises by simp

end
